theory Spec2Isabelle
  imports Main
begin

section \<open>Data model\<close>

text \<open>
  The development embeds the Pinia connection store (\<^verbatim>\<open>useConnectionStore\<close>, in its current
  and in its legacy version) and the media card component with lazy thumbnail loading.
  JavaScript strings are modelled as \<^typ>\<open>string\<close>, the port (a JavaScript number that
  holds a port number) as \<^typ>\<open>nat\<close>, optional properties as \<^typ>\<open>'a option\<close>.
\<close>

subsection \<open>Types both store versions share\<close>

record Ec2ConnectionConfig =
  host :: string
  username :: string
  pemContent :: string
  port :: nat

record FileInfo =
  name :: string
  path :: string
  size_bytes :: nat
  isDir :: bool
  modified :: "nat option"
  mimeType :: "string option"
  thumbnail :: "string option"

subsection \<open>Legacy store state\<close>

text \<open>
  The legacy store knows a single backend kind. Its \<^verbatim>\<open>ConnectionConfig\<close> has the fields
  host, username, pemContent and port, which is the shape of \<^verbatim>\<open>Ec2ConnectionConfig\<close>
  without the tag. Its record is declared before the current store's, so that an
  unqualified field name below always means the field of the current store.
\<close>

record legacy_store =
  isConnected :: bool
  isConnecting :: bool
  error :: "string option"
  savedConfig :: "Ec2ConnectionConfig option"
  currentPath :: string
  files :: "FileInfo list"
  isLoadingFiles :: bool
  isMediaOnly :: bool
  localStorage :: "string \<rightharpoonup> string"

subsection \<open>Current store state\<close>

datatype StorageType = ec2 | github

record GitHubConnectionConfig =
  repoUrl :: string
  username :: string
  sshKeyContent :: string
  branch :: string
  localPath :: string

text \<open>The tagged union \<^verbatim>\<open>ConnectionConfig\<close>; the constructor is the \<^verbatim>\<open>type\<close> field.\<close>

datatype ConnectionConfig = Ec2 Ec2ConnectionConfig | GitHub GitHubConnectionConfig

text \<open>
  The refs of the store, together with the browser's \<^verbatim>\<open>localStorage\<close>, which the store
  reads and writes as a global. \<^verbatim>\<open>localStorage\<close> is a map from keys to values.
  \<^verbatim>\<open>removeItem\<close> has no failure; \<^verbatim>\<open>setItem\<close> may throw (a full quota), which is part
  of what a store call meets, below.
\<close>

record store =
  isConnected :: bool
  isConnecting :: bool
  error :: "string option"
  savedConfig :: "ConnectionConfig option"
  currentPath :: string
  files :: "FileInfo list"
  isLoadingFiles :: bool
  storageType :: "StorageType option"
  rootPath :: string
  isMediaOnly :: bool
  localStorage :: "string \<rightharpoonup> string"

text \<open>The state \<^verbatim>\<open>defineStore\<close> builds, over the \<^verbatim>\<open>localStorage\<close> found at start.\<close>

definition initial_store :: "(string \<rightharpoonup> string) \<Rightarrow> store" where
  "initial_store ls =
     \<lparr>isConnected = False, isConnecting = False, error = None, savedConfig = None,
      currentPath = ''/'', files = [], isLoadingFiles = False, storageType = None,
      rootPath = ''/'', isMediaOnly = False, localStorage = ls\<rparr>"

subsection \<open>The backend behind \<^verbatim>\<open>invoke\<close>, and the storage\<close>

text \<open>
  \<^verbatim>\<open>invoke\<close> calls into the Tauri backend, which is outside the store. A value of
  \<open>backend\<close> gives what each command answers during one call of a store function:
  \<open>Inr\<close> the resolved value, \<open>Inl\<close> the rejection, already turned into the text that
  \<^verbatim>\<open>String(e)\<close> produces. Every store function receives its own \<open>backend\<close>, so
  the answers may change from one call to the next. The last field is no command of
  the backend: \<open>setItem_error k v\<close> tells what \<^verbatim>\<open>localStorage.setItem(k, v)\<close> does
  during the call, \<open>None\<close> when it stores the value and \<open>Some\<close> the text of the
  exception when it throws.
\<close>

record connect_response =
  success :: bool
  message :: string
  storage_type :: "string option"
  root_path :: "string option"

record backend =
  invoke_connect_ec2 :: "string \<Rightarrow> string \<Rightarrow> string \<Rightarrow> nat \<Rightarrow> string + connect_response"
  invoke_connect_github ::
    "string \<Rightarrow> string \<Rightarrow> string \<Rightarrow> string \<Rightarrow> string \<Rightarrow> string + connect_response"
  invoke_list_files :: "string \<Rightarrow> string + FileInfo list"
  invoke_disconnect :: "string + unit"
  setItem_error :: "string \<Rightarrow> string \<Rightarrow> string option"

text \<open>
  A backend that answers every command with a fixed value, as the mocks of the tests do,
  under a storage that stores.
\<close>

definition mock_backend ::
  "string + connect_response \<Rightarrow> string + FileInfo list \<Rightarrow> string + unit \<Rightarrow> backend" where
  "mock_backend c l d =
     \<lparr>invoke_connect_ec2 = (\<lambda>_ _ _ _. c), invoke_connect_github = (\<lambda>_ _ _ _ _. c),
      invoke_list_files = (\<lambda>_. l), invoke_disconnect = d, setItem_error = (\<lambda>_ _. None)\<rparr>"

section \<open>JavaScript helpers\<close>

text \<open>\<^verbatim>\<open>a || b\<close> on strings: the empty string is falsy.\<close>

definition str_or :: "string \<Rightarrow> string \<Rightarrow> string" where
  "str_or a b = (if a = [] then b else a)"

text \<open>\<^verbatim>\<open>a || b\<close> where \<^verbatim>\<open>a\<close> is an optional string: undefined and null are falsy too.\<close>

definition opt_or :: "string option \<Rightarrow> string \<Rightarrow> string" where
  "opt_or a b = (case a of None \<Rightarrow> b | Some v \<Rightarrow> str_or v b)"

text \<open>\<^verbatim>\<open>n || d\<close> on numbers: zero is falsy.\<close>

definition num_or :: "nat \<Rightarrow> nat \<Rightarrow> nat" where
  "num_or n d = (if n = 0 then d else n)"

text \<open>\<^verbatim>\<open>s.startsWith(p)\<close>.\<close>

definition startsWith :: "string \<Rightarrow> string \<Rightarrow> bool" where
  "startsWith s p = (take (length p) s = p)"

text \<open>\<^verbatim>\<open>s.includes(p)\<close>: \<open>p\<close> occurs in \<open>s\<close> as a contiguous run.\<close>

fun includes_str :: "string \<Rightarrow> string \<Rightarrow> bool" where
  "includes_str [] p = (p = [])"
| "includes_str (c # cs) p = (startsWith (c # cs) p \<or> includes_str cs p)"

subsection \<open>\<^verbatim>\<open>JSON.stringify\<close> of a connection config\<close>

fun show_nat :: "nat \<Rightarrow> string" where
  "show_nat n =
     (if n < 10 then [''0123456789'' ! n]
      else show_nat (n div 10) @ [''0123456789'' ! (n mod 10)])"

definition hex_digit :: "nat \<Rightarrow> char" where
  "hex_digit n = ''0123456789abcdef'' ! (n mod 16)"

text \<open>
  The escapes of \<^verbatim>\<open>QuoteJSONString\<close>: the double quote, the backslash, the five short
  escapes and \<^verbatim>\<open>\u00XX\<close> for the other control characters.
\<close>

definition json_escape :: "char \<Rightarrow> string" where
  "json_escape c =
     (if c = CHR 0x22 then [CHR 0x5C, CHR 0x22]
      else if c = CHR 0x5C then [CHR 0x5C, CHR 0x5C]
      else if c = CHR 0x08 then [CHR 0x5C, CHR ''b'']
      else if c = CHR 0x0C then [CHR 0x5C, CHR ''f'']
      else if c = CHR 0x0A then [CHR 0x5C, CHR ''n'']
      else if c = CHR 0x0D then [CHR 0x5C, CHR ''r'']
      else if c = CHR 0x09 then [CHR 0x5C, CHR ''t'']
      else if (of_char c :: nat) < 32 then
        [CHR 0x5C, CHR ''u'', CHR ''0'', CHR ''0'',
         hex_digit (of_char c div 16), hex_digit (of_char c)]
      else [c])"

definition json_string :: "string \<Rightarrow> string" where
  "json_string s = CHR 0x22 # concat (map json_escape s) @ [CHR 0x22]"

text \<open>
  The properties are written in the order in which the login view builds the object,
  which is the order of the interface declarations.
\<close>

fun JSON_stringify :: "ConnectionConfig \<Rightarrow> string" where
  \<open>JSON_stringify (Ec2 c) =
     ''{"type":"ec2","host":'' @ json_string (host c) @
     '',"username":'' @ json_string (Ec2ConnectionConfig.username c) @
     '',"pemContent":'' @ json_string (pemContent c) @
     '',"port":'' @ show_nat (port c) @ ''}''\<close>
| \<open>JSON_stringify (GitHub c) =
     ''{"type":"github","repoUrl":'' @ json_string (repoUrl c) @
     '',"username":'' @ json_string (GitHubConnectionConfig.username c) @
     '',"sshKeyContent":'' @ json_string (sshKeyContent c) @
     '',"branch":'' @ json_string (branch c) @
     '',"localPath":'' @ json_string (localPath c) @ ''}''\<close>

section \<open>The current connection store\<close>

definition loadFiles :: "backend \<Rightarrow> string \<Rightarrow> store \<Rightarrow> store" where
  "loadFiles b p s =
     (let s1 = s\<lparr>isLoadingFiles := True\<rparr>;
          s2 = s1\<lparr>currentPath := p\<rparr>;
          s3 = (case invoke_list_files b p of
                  Inr result \<Rightarrow> s2\<lparr>files := result\<rparr>
                | Inl e \<Rightarrow> s2\<lparr>error := Some e\<rparr>)
      in s3\<lparr>isLoadingFiles := False\<rparr>)"

text \<open>
  The block both connect functions run when \<^verbatim>\<open>response.success\<close> holds; they differ in
  the storage type and in the config they save. The block sits in the \<^verbatim>\<open>try\<close>: it
  ends normally (\<open>Inr\<close> the state), or \<^verbatim>\<open>setItem\<close> throws (\<open>Inl\<close> the exception and the
  state reached by then), and then nothing is stored and nothing is listed.
\<close>

definition connected ::
  "backend \<Rightarrow> StorageType \<Rightarrow> ConnectionConfig \<Rightarrow> connect_response \<Rightarrow> store \<Rightarrow> (string \<times> store) + store" where
  "connected b k config response s =
     (let s1 = s\<lparr>isConnected := True\<rparr>;
          s2 = s1\<lparr>savedConfig := Some config\<rparr>;
          s3 = s2\<lparr>storageType := Some k\<rparr>;
          s4 = s3\<lparr>rootPath := opt_or (root_path response) ''/''\<rparr>
      in case setItem_error b ''image-connection'' (JSON_stringify config) of
           Some e \<Rightarrow> Inl (e, s4)
         | None \<Rightarrow>
             (let s5 = s4\<lparr>localStorage :=
                         (localStorage s4)(''image-connection'' \<mapsto> JSON_stringify config)\<rparr>
              in Inr (loadFiles b (rootPath s5) s5)))"

text \<open>
  The end of the \<^verbatim>\<open>try\<close> block on success of the backend: \<^verbatim>\<open>return true\<close>, or the
  \<^verbatim>\<open>catch\<close> block with the exception of \<^verbatim>\<open>setItem\<close>.
\<close>

definition connected_or_caught :: "(string \<times> store) + store \<Rightarrow> bool \<times> store" where
  "connected_or_caught r =
     (case r of
        Inr s \<Rightarrow> (True, s)
      | Inl (e, s) \<Rightarrow> (False, s\<lparr>error := Some e\<rparr>))"

definition connectEc2 :: "backend \<Rightarrow> Ec2ConnectionConfig \<Rightarrow> store \<Rightarrow> bool \<times> store" where
  "connectEc2 b config s =
     (let s1 = s\<lparr>isConnecting := True\<rparr>;
          s2 = s1\<lparr>error := None\<rparr>;
          (r, s3) =
            (case invoke_connect_ec2 b (host config) (Ec2ConnectionConfig.username config)
                    (pemContent config) (num_or (port config) 22) of
               Inr response \<Rightarrow>
                 if success response then
                   connected_or_caught (connected b ec2 (Ec2 config) response s2)
                 else (False, s2\<lparr>error := Some (message response)\<rparr>)
             | Inl e \<Rightarrow> (False, s2\<lparr>error := Some e\<rparr>))
      in (r, s3\<lparr>isConnecting := False\<rparr>))"

definition connectGithub :: "backend \<Rightarrow> GitHubConnectionConfig \<Rightarrow> store \<Rightarrow> bool \<times> store" where
  "connectGithub b config s =
     (let s1 = s\<lparr>isConnecting := True\<rparr>;
          s2 = s1\<lparr>error := None\<rparr>;
          (r, s3) =
            (case invoke_connect_github b (repoUrl config) (GitHubConnectionConfig.username config)
                    (sshKeyContent config) (str_or (branch config) ''main'')
                    (str_or (localPath config) ''/tmp/image-repo'') of
               Inr response \<Rightarrow>
                 if success response then
                   connected_or_caught (connected b github (GitHub config) response s2)
                 else (False, s2\<lparr>error := Some (message response)\<rparr>)
             | Inl e \<Rightarrow> (False, s2\<lparr>error := Some e\<rparr>))
      in (r, s3\<lparr>isConnecting := False\<rparr>))"

text \<open>
  \<^verbatim>\<open>connect\<close> dispatches on the tag. Its last branch (an unknown tag) is excluded by the
  type of the config.
\<close>

fun connect :: "backend \<Rightarrow> ConnectionConfig \<Rightarrow> store \<Rightarrow> bool \<times> store" where
  "connect b (Ec2 config) s = connectEc2 b config s"
| "connect b (GitHub config) s = connectGithub b config s"

text \<open>
  \<^verbatim>\<open>disconnect\<close> catches whatever the backend throws and only logs it, so it returns a
  state and no error.
\<close>

definition disconnect :: "backend \<Rightarrow> store \<Rightarrow> store" where
  "disconnect b s =
     (case invoke_disconnect b of
        Inr _ \<Rightarrow>
          (let s1 = s\<lparr>isConnected := False\<rparr>;
               s2 = s1\<lparr>files := []\<rparr>;
               s3 = s2\<lparr>currentPath := ''/''\<rparr>;
               s4 = s3\<lparr>storageType := None\<rparr>
           in s4\<lparr>localStorage := (localStorage s4)(''image-connection'' := None)\<rparr>)
      | Inl e \<Rightarrow> s)"

definition toggleMediaOnly :: "store \<Rightarrow> store" where
  "toggleMediaOnly s = s\<lparr>isMediaOnly := \<not> isMediaOnly s\<rparr>"

definition filteredFiles :: "store \<Rightarrow> FileInfo list" where
  "filteredFiles s =
     (if \<not> isMediaOnly s then files s
      else filter (\<lambda>file.
             if isDir file then True
             else (let mime = opt_or (mimeType file) ''''
                   in startsWith mime ''image/'' \<or> mime = ''video'')) (files s))"

text \<open>What the backend answers to the connect command that belongs to a config.\<close>

fun connect_answer :: "backend \<Rightarrow> ConnectionConfig \<Rightarrow> string + connect_response" where
  "connect_answer b (Ec2 c) =
     invoke_connect_ec2 b (host c) (Ec2ConnectionConfig.username c) (pemContent c)
       (num_or (port c) 22)"
| "connect_answer b (GitHub c) =
     invoke_connect_github b (repoUrl c) (GitHubConnectionConfig.username c) (sshKeyContent c)
       (str_or (branch c) ''main'') (str_or (localPath c) ''/tmp/image-repo'')"

fun kind :: "ConnectionConfig \<Rightarrow> StorageType" where
  "kind (Ec2 c) = ec2"
| "kind (GitHub c) = github"

text \<open>The message a failed connect shows: the response's, or the rejection's.\<close>

fun failure_message :: "string + connect_response \<Rightarrow> string option" where
  "failure_message (Inl e) = Some e"
| "failure_message (Inr response) = (if success response then None else Some (message response))"

subsection \<open>Sequences of store calls\<close>

datatype action =
  Connect backend ConnectionConfig
| Disconnect backend
| LoadFiles backend string
| ToggleMediaOnly

fun step :: "store \<Rightarrow> action \<Rightarrow> store" where
  "step s (Connect b config) = snd (connect b config s)"
| "step s (Disconnect b) = disconnect b s"
| "step s (LoadFiles b p) = loadFiles b p s"
| "step s ToggleMediaOnly = toggleMediaOnly s"

definition run :: "action list \<Rightarrow> store \<Rightarrow> store" where
  "run as s = foldl step s as"

text \<open>
  The store describes one connection: when a storage type is set, the store is
  connected and the saved config is a config of that kind.
\<close>

definition session_coherent :: "store \<Rightarrow> bool" where
  "session_coherent s =
     (case storageType s of
        None \<Rightarrow> True
      | Some k \<Rightarrow>
          isConnected s \<and>
          (case savedConfig s of
             None \<Rightarrow> False
           | Some c \<Rightarrow> kind c = k))"

text \<open>The key material of a config, and the name of the property that holds it.\<close>

fun key_material :: "ConnectionConfig \<Rightarrow> string" where
  "key_material (Ec2 c) = pemContent c"
| "key_material (GitHub c) = sshKeyContent c"

fun key_property :: "ConnectionConfig \<Rightarrow> string" where
  "key_property (Ec2 c) = ''pemContent''"
| "key_property (GitHub c) = ''sshKeyContent''"

section \<open>The legacy connection store\<close>

definition legacy_stringify :: "Ec2ConnectionConfig \<Rightarrow> string" where
  \<open>legacy_stringify c =
     ''{"host":'' @ json_string (host c) @
     '',"username":'' @ json_string (Ec2ConnectionConfig.username c) @
     '',"pemContent":'' @ json_string (pemContent c) @
     '',"port":'' @ show_nat (port c) @ ''}''\<close>

definition legacy_initial_store :: "(string \<rightharpoonup> string) \<Rightarrow> legacy_store" where
  "legacy_initial_store ls =
     \<lparr>legacy_store.isConnected = False, legacy_store.isConnecting = False,
      legacy_store.error = None, legacy_store.savedConfig = None,
      legacy_store.currentPath = ''/home'', legacy_store.files = [],
      legacy_store.isLoadingFiles = False, legacy_store.isMediaOnly = False,
      legacy_store.localStorage = ls\<rparr>"

definition legacy_loadFiles :: "backend \<Rightarrow> string \<Rightarrow> legacy_store \<Rightarrow> legacy_store" where
  "legacy_loadFiles b p s =
     (let s1 = s\<lparr>legacy_store.isLoadingFiles := True\<rparr>;
          s2 = s1\<lparr>legacy_store.currentPath := p\<rparr>;
          s3 = (case invoke_list_files b p of
                  Inr result \<Rightarrow> s2\<lparr>legacy_store.files := result\<rparr>
                | Inl e \<Rightarrow> s2\<lparr>legacy_store.error := Some e\<rparr>)
      in s3\<lparr>legacy_store.isLoadingFiles := False\<rparr>)"

text \<open>
  The legacy response has the fields success and message only; the other two fields of
  \<open>connect_response\<close> are not read. A throwing \<^verbatim>\<open>setItem\<close> ends in the \<^verbatim>\<open>catch\<close> block,
  as in the current store.
\<close>

definition legacy_connect :: "backend \<Rightarrow> Ec2ConnectionConfig \<Rightarrow> legacy_store \<Rightarrow> bool \<times> legacy_store" where
  "legacy_connect b config s =
     (let s1 = s\<lparr>legacy_store.isConnecting := True\<rparr>;
          s2 = s1\<lparr>legacy_store.error := None\<rparr>;
          (r, s3) =
            (case invoke_connect_ec2 b (host config) (Ec2ConnectionConfig.username config)
                    (pemContent config) (num_or (port config) 22) of
               Inr response \<Rightarrow>
                 if success response then
                   (let s4 = s2\<lparr>legacy_store.isConnected := True\<rparr>;
                        s5 = s4\<lparr>legacy_store.savedConfig := Some config\<rparr>
                    in case setItem_error b ''ec2-connection'' (legacy_stringify config) of
                         Some e \<Rightarrow> (False, s5\<lparr>legacy_store.error := Some e\<rparr>)
                       | None \<Rightarrow>
                           (let s6 = s5\<lparr>legacy_store.localStorage :=
                                       (legacy_store.localStorage s5)
                                         (''ec2-connection'' \<mapsto> legacy_stringify config)\<rparr>
                            in (True,
                                legacy_loadFiles b
                                  (if Ec2ConnectionConfig.username config = ''root'' then ''/root''
                                   else ''/home/'' @ Ec2ConnectionConfig.username config) s6)))
                 else (False, s2\<lparr>legacy_store.error := Some (message response)\<rparr>)
             | Inl e \<Rightarrow> (False, s2\<lparr>legacy_store.error := Some e\<rparr>))
      in (r, s3\<lparr>legacy_store.isConnecting := False\<rparr>))"

section \<open>The media card\<close>

text \<open>
  The card with lazy thumbnail loading. \<open>thumbnailer\<close> is what the backend answers to
  \<^verbatim>\<open>get_file_thumbnail\<close> with a path and a maximal size: \<open>Inr\<close> the data URL, \<open>Inl\<close>
  the rejection. Each handler runs to its end before the next one starts. The older
  card of the repository has no thumbnails and tests a video by equality with \<open>video\<close>.
\<close>

type_synonym thumbnailer = "string \<Rightarrow> nat \<Rightarrow> string + string"

text \<open>
  The refs of one card. \<open>observing\<close> tells whether the intersection observer watches
  the card's element. \<open>requested\<close> is not in the source: it logs the arguments of every
  \<^verbatim>\<open>get_file_thumbnail\<close> command the card has issued, the latest last.
\<close>

record card =
  thumbnailLoaded :: bool
  thumbnailUrl :: string
  hasBeenVisible :: bool
  observing :: bool
  requested :: "(string \<times> nat) list"

definition initial_card :: card where
  "initial_card =
     \<lparr>thumbnailLoaded = False, thumbnailUrl = [], hasBeenVisible = False,
      observing = False, requested = []\<rparr>"

text \<open>\<^verbatim>\<open>props.file.mimeType?.startsWith(...)\<close>: undefined, hence falsy, without a mimeType.\<close>

definition isImage :: "FileInfo \<Rightarrow> bool" where
  "isImage file = (case mimeType file of None \<Rightarrow> False | Some m \<Rightarrow> startsWith m ''image/'')"

definition isVideo :: "FileInfo \<Rightarrow> bool" where
  "isVideo file = (case mimeType file of None \<Rightarrow> False | Some m \<Rightarrow> startsWith m ''video/'')"

definition onThumbnailError :: "card \<Rightarrow> card" where
  "onThumbnailError c = c\<lparr>thumbnailLoaded := False\<rparr>"

definition loadThumbnail :: "thumbnailer \<Rightarrow> FileInfo \<Rightarrow> card \<Rightarrow> card" where
  "loadThumbnail t file c =
     (if \<not> isImage file \<or> thumbnailLoaded c then c
      else
        (let c1 = c\<lparr>requested := requested c @ [(path file, 200)]\<rparr>
         in case t (path file) 200 of
              Inr dataUrl \<Rightarrow> (c1\<lparr>thumbnailUrl := dataUrl\<rparr>)\<lparr>thumbnailLoaded := True\<rparr>
            | Inl e \<Rightarrow> c1\<lparr>thumbnailLoaded := False\<rparr>))"

text \<open>\<^verbatim>\<open>onMounted\<close>: the card's root element exists, so an image card starts observing.\<close>

definition onMounted :: "FileInfo \<Rightarrow> card \<Rightarrow> card" where
  "onMounted file c = (if \<not> isImage file then c else c\<lparr>observing := True\<rparr>)"

definition onUnmounted :: "card \<Rightarrow> card" where
  "onUnmounted c = c\<lparr>observing := False\<rparr>"

text \<open>
  The observer's callback over its entries, each given by its \<^verbatim>\<open>isIntersecting\<close> flag. It
  only runs while the observer observes.
\<close>

fun forEach_entry :: "thumbnailer \<Rightarrow> FileInfo \<Rightarrow> bool list \<Rightarrow> card \<Rightarrow> card" where
  "forEach_entry t file [] c = c"
| "forEach_entry t file (isIntersecting # entries) c =
     forEach_entry t file entries
       (if isIntersecting \<and> \<not> hasBeenVisible c then
          (let c1 = c\<lparr>hasBeenVisible := True\<rparr>;
               c2 = loadThumbnail t file c1
           in c2\<lparr>observing := False\<rparr>)
        else c)"

definition observerCallback :: "thumbnailer \<Rightarrow> FileInfo \<Rightarrow> bool list \<Rightarrow> card \<Rightarrow> card" where
  "observerCallback t file entries c = (if observing c then forEach_entry t file entries c else c)"

text \<open>
  What can happen to a card. \<open>Load\<close> is a direct call of \<^verbatim>\<open>loadThumbnail\<close>; the
  component itself calls it from the observer's callback only.
\<close>

datatype card_event =
  Mount
| Observe thumbnailer "bool list"
| ImgError
| Unmount
| Load thumbnailer

fun card_step :: "FileInfo \<Rightarrow> card \<Rightarrow> card_event \<Rightarrow> card" where
  "card_step file c Mount = onMounted file c"
| "card_step file c (Observe t entries) = observerCallback t file entries c"
| "card_step file c ImgError = onThumbnailError c"
| "card_step file c Unmount = onUnmounted c"
| "card_step file c (Load t) = loadThumbnail t file c"

definition card_run :: "FileInfo \<Rightarrow> card_event list \<Rightarrow> card \<Rightarrow> card" where
  "card_run file evs c = foldl (card_step file) c evs"

text \<open>
  The events of the component itself: every call of \<^verbatim>\<open>loadThumbnail\<close> comes from the
  observer's callback.
\<close>

fun is_direct_load :: "card_event \<Rightarrow> bool" where
  "is_direct_load (Load t) = True"
| "is_direct_load _ = False"

fun is_img_error :: "card_event \<Rightarrow> bool" where
  "is_img_error ImgError = True"
| "is_img_error _ = False"

text \<open>A card that has not been visible has requested nothing, and no card requests twice.\<close>

definition requested_once :: "card \<Rightarrow> bool" where
  "requested_once c = ((\<not> hasBeenVisible c \<longrightarrow> requested c = []) \<and> length (requested c) \<le> 1)"

section \<open>Values of the tests\<close>

definition sample_ec2 :: Ec2ConnectionConfig where
  "sample_ec2 = \<lparr>host = ''192.168.1.1'', username = ''ubuntu'', pemContent = ''dGVzdA=='', port = 22\<rparr>"

definition sample_github :: GitHubConnectionConfig where
  "sample_github =
     \<lparr>repoUrl = ''git@github.com:test/repo.git'', username = ''git'',
      sshKeyContent = ''dGVzdCBrZXk='', branch = ''develop'', localPath = ''/custom/path''\<rparr>"

definition sample_file :: FileInfo where
  "sample_file =
     \<lparr>name = ''test.jpg'', path = ''/test.jpg'', size_bytes = 100, isDir = False,
      modified = None, mimeType = Some ''image/jpeg'', thumbnail = None\<rparr>"

definition ok_response :: "string option \<Rightarrow> connect_response" where
  "ok_response r = \<lparr>success = True, message = ''Connected'', storage_type = Some ''ec2'', root_path = r\<rparr>"

definition failed_response :: connect_response where
  "failed_response =
     \<lparr>success = False, message = ''Connection failed'', storage_type = None, root_path = None\<rparr>"

definition video_file :: FileInfo where
  "video_file =
     \<lparr>name = ''video.mp4'', path = ''/video.mp4'', size_bytes = 100, isDir = False,
      modified = None, mimeType = Some ''video/mp4'', thumbnail = None\<rparr>"

definition bare_video_file :: FileInfo where
  "bare_video_file =
     \<lparr>name = ''clip.mp4'', path = ''/clip.mp4'', size_bytes = 100, isDir = False,
      modified = None, mimeType = Some ''video'', thumbnail = None\<rparr>"

definition doc_file :: FileInfo where
  "doc_file =
     \<lparr>name = ''doc.pdf'', path = ''/doc.pdf'', size_bytes = 200, isDir = False,
      modified = None, mimeType = Some ''application/pdf'', thumbnail = None\<rparr>"

definition folder_file :: FileInfo where
  "folder_file =
     \<lparr>name = ''folder'', path = ''/folder'', size_bytes = 0, isDir = True,
      modified = None, mimeType = None, thumbnail = None\<rparr>"

text \<open>A backend that accepts every command, and one that rejects every command.\<close>

definition accepting :: backend where
  "accepting = mock_backend (Inr (ok_response (Some ''/home/ubuntu''))) (Inr [sample_file]) (Inr ())"

definition rejecting :: backend where
  "rejecting =
     mock_backend (Inl ''Error: Network error'') (Inl ''Error: Failed to list'')
       (Inl ''Error: Disconnect failed'')"

text \<open>The accepting backend under a storage that is full.\<close>

definition accepting_full :: backend where
  "accepting_full = accepting\<lparr>setItem_error := (\<lambda>_ _. Some ''QuotaExceededError'')\<rparr>"

text \<open>The store after a first successful connect to the sample host.\<close>

definition browsing_store :: store where
  "browsing_store = snd (connect accepting (Ec2 sample_ec2) (initial_store Map.empty))"

section \<open>Properties of the store\<close>

lemma loadFiles_failure:
  "invoke_list_files b p = Inl e \<Longrightarrow>
   loadFiles b p s = s\<lparr>currentPath := p, error := Some e, isLoadingFiles := False\<rparr>"
  by (simp add: loadFiles_def)

lemma loadFiles_success:
  "invoke_list_files b p = Inr fs \<Longrightarrow>
   loadFiles b p s = s\<lparr>currentPath := p, files := fs, isLoadingFiles := False\<rparr>"
  by (simp add: loadFiles_def)

text \<open>
  Claim C10. When the backend listing of \<open>loadFiles p\<close> fails, the file list keeps its
  old entries, \<open>error\<close> holds the failure message and \<open>isLoadingFiles\<close> is false after
  the call, but \<open>currentPath\<close> is already the requested path \<open>p\<close>; nothing else
  changes.
\<close>

theorem loadFiles_failure_frame:
  assumes "invoke_list_files b p = Inl e"
  shows "files (loadFiles b p s) = files s
       \<and> error (loadFiles b p s) = Some e
       \<and> isLoadingFiles (loadFiles b p s) = False
       \<and> currentPath (loadFiles b p s) = p
       \<and> loadFiles b p s = s\<lparr>currentPath := p, error := Some e, isLoadingFiles := False\<rparr>"
  using assms by (simp add: loadFiles_def)

theorem loadFiles_failure_frame_witness:
  "invoke_list_files (mock_backend (Inl []) (Inl ''Error: Failed to list'') (Inr ())) ''/home/user''
     = Inl ''Error: Failed to list''
   \<and> files (loadFiles (mock_backend (Inl []) (Inl ''Error: Failed to list'') (Inr ())) ''/home/user''
        ((initial_store Map.empty)\<lparr>files := [sample_file]\<rparr>)) = [sample_file]
   \<and> error (loadFiles (mock_backend (Inl []) (Inl ''Error: Failed to list'') (Inr ())) ''/home/user''
        ((initial_store Map.empty)\<lparr>files := [sample_file]\<rparr>)) = Some ''Error: Failed to list''
   \<and> currentPath (loadFiles (mock_backend (Inl []) (Inl ''Error: Failed to list'') (Inr ())) ''/home/user''
        ((initial_store Map.empty)\<lparr>files := [sample_file]\<rparr>)) = ''/home/user''"
  using loadFiles_failure_frame
    [of "mock_backend (Inl []) (Inl ''Error: Failed to list'') (Inr ())" "''/home/user''"
        "''Error: Failed to list''" "(initial_store Map.empty)\<lparr>files := [sample_file]\<rparr>"]
  by (simp add: mock_backend_def initial_store_def)

lemma connect_failure:
  "failure_message (connect_answer b config) = Some msg \<Longrightarrow>
   connect b config s = (False, s\<lparr>error := Some msg, isConnecting := False\<rparr>)"
  by (cases config; cases "connect_answer b config")
     (auto simp: connectEc2_def connectGithub_def split: if_splits)

lemma connect_success:
  assumes "connect_answer b config = Inr response" and "success response"
    and "setItem_error b ''image-connection'' (JSON_stringify config) = None"
  shows "connect b config s =
     (True,
      case invoke_list_files b (opt_or (root_path response) ''/'') of
        Inr result \<Rightarrow>
          \<lparr>isConnected = True, isConnecting = False, error = None, savedConfig = Some config,
           currentPath = opt_or (root_path response) ''/'', files = result,
           isLoadingFiles = False, storageType = Some (kind config),
           rootPath = opt_or (root_path response) ''/'', isMediaOnly = isMediaOnly s,
           localStorage = (localStorage s)(''image-connection'' \<mapsto> JSON_stringify config)\<rparr>
      | Inl e \<Rightarrow>
          \<lparr>isConnected = True, isConnecting = False, error = Some e, savedConfig = Some config,
           currentPath = opt_or (root_path response) ''/'', files = files s,
           isLoadingFiles = False, storageType = Some (kind config),
           rootPath = opt_or (root_path response) ''/'', isMediaOnly = isMediaOnly s,
           localStorage = (localStorage s)(''image-connection'' \<mapsto> JSON_stringify config)\<rparr>)"
  using assms
  by (cases config)
     (simp_all add: connectEc2_def connectGithub_def connected_def connected_or_caught_def
        loadFiles_def Let_def split: sum.split)

lemma connect_caught:
  assumes "connect_answer b config = Inr response" and "success response"
    and "setItem_error b ''image-connection'' (JSON_stringify config) = Some e"
  shows "connect b config s =
     (False,
      s\<lparr>isConnecting := False, error := Some e, isConnected := True, savedConfig := Some config,
        storageType := Some (kind config), rootPath := opt_or (root_path response) ''/''\<rparr>)"
  using assms
  by (cases config)
     (simp_all add: connectEc2_def connectGithub_def connected_def connected_or_caught_def Let_def)

lemma connect_cases:
  obtains (failed) msg where "failure_message (connect_answer b config) = Some msg"
    | (caught) response e where "connect_answer b config = Inr response" and "success response"
        and "setItem_error b ''image-connection'' (JSON_stringify config) = Some e"
    | (succeeded) response where "connect_answer b config = Inr response" and "success response"
        and "setItem_error b ''image-connection'' (JSON_stringify config) = None"
proof (cases "connect_answer b config")
  case (Inl e)
  then show ?thesis using failed by simp
next
  case (Inr response)
  show ?thesis
  proof (cases "success response")
    case True
    then show ?thesis
      using Inr caught succeeded
      by (cases "setItem_error b ''image-connection'' (JSON_stringify config)") auto
  next
    case False
    then show ?thesis using Inr failed by simp
  qed
qed

lemma connect_trueD:
  assumes "fst (connect b config s)"
  obtains response where "connect_answer b config = Inr response" and "success response"
    and "setItem_error b ''image-connection'' (JSON_stringify config) = None"
proof (cases b config rule: connect_cases)
  case (failed msg)
  then show ?thesis using assms by (simp add: connect_failure)
next
  case (caught response e)
  then show ?thesis using assms by (simp add: connect_caught)
next
  case (succeeded response)
  then show ?thesis using that by blast
qed

text \<open>
  Claim C2. A connect call fails when the backend answers with \<open>success = false\<close> or
  when the invocation throws. Then the call returns false and the state is the state
  before the call with only \<open>error\<close> set to the failure message and \<open>isConnecting\<close> set
  to false: \<open>isConnected\<close> keeps its value (so it remains false when it was false),
  \<open>savedConfig\<close>, \<open>storageType\<close>, \<open>rootPath\<close> and \<open>files\<close> are unchanged and
  \<open>localStorage\<close> is not written.
\<close>

theorem connect_failure_rollback:
  assumes "failure_message (connect_answer b config) = Some msg"
  shows "fst (connect b config s) = False
       \<and> snd (connect b config s) = s\<lparr>error := Some msg, isConnecting := False\<rparr>
       \<and> isConnected (snd (connect b config s)) = isConnected s
       \<and> (\<not> isConnected s \<longrightarrow> \<not> isConnected (snd (connect b config s)))
       \<and> savedConfig (snd (connect b config s)) = savedConfig s
       \<and> storageType (snd (connect b config s)) = storageType s
       \<and> rootPath (snd (connect b config s)) = rootPath s
       \<and> files (snd (connect b config s)) = files s
       \<and> localStorage (snd (connect b config s)) = localStorage s
       \<and> isConnecting (snd (connect b config s)) = False
       \<and> error (snd (connect b config s)) = Some msg"
  using connect_failure [OF assms, of s] by simp

theorem connect_failure_rollback_witness:
  "failure_message (connect_answer (mock_backend (Inr failed_response) (Inr [sample_file]) (Inr ()))
      (Ec2 sample_ec2)) = Some ''Connection failed''
   \<and> connect (mock_backend (Inr failed_response) (Inr [sample_file]) (Inr ())) (Ec2 sample_ec2)
        (initial_store Map.empty)
       = (False, (initial_store Map.empty)\<lparr>error := Some ''Connection failed''\<rparr>)
   \<and> failure_message (connect_answer (mock_backend (Inl ''Error: Network error'') (Inr [sample_file]) (Inr ()))
      (GitHub sample_github)) = Some ''Error: Network error''
   \<and> connect (mock_backend (Inl ''Error: Network error'') (Inr [sample_file]) (Inr ())) (GitHub sample_github)
        (initial_store Map.empty)
       = (False, (initial_store Map.empty)\<lparr>error := Some ''Error: Network error''\<rparr>)"
  using
    connect_failure_rollback
      [of "mock_backend (Inr failed_response) (Inr [sample_file]) (Inr ())" "Ec2 sample_ec2"
          "''Connection failed''" "initial_store Map.empty"]
    connect_failure_rollback
      [of "mock_backend (Inl ''Error: Network error'') (Inr [sample_file]) (Inr ())"
          "GitHub sample_github" "''Error: Network error''" "initial_store Map.empty"]
  by (simp add: mock_backend_def failed_response_def initial_store_def prod_eq_iff)

text \<open>
  Claim C3, as the claim states it, fails at two connects for which the backend reports
  success. Without a root path in the response (the response type makes \<open>root_path\<close>
  optional) the store falls back to \<open>/\<close>, which is no path the backend reported. And
  when \<^verbatim>\<open>localStorage.setItem\<close> throws, the call returns false and lists nothing.
\<close>

theorem connect_success_counterexample:
  "connect_answer (mock_backend (Inr (ok_response None)) (Inr [sample_file]) (Inr ())) (Ec2 sample_ec2)
     = Inr (ok_response None)
   \<and> success (ok_response None)
   \<and> fst (connect (mock_backend (Inr (ok_response None)) (Inr [sample_file]) (Inr ())) (Ec2 sample_ec2)
        (initial_store Map.empty))
   \<and> rootPath (snd (connect (mock_backend (Inr (ok_response None)) (Inr [sample_file]) (Inr ()))
        (Ec2 sample_ec2) (initial_store Map.empty))) = ''/''
   \<and> root_path (ok_response None)
       \<noteq> Some (rootPath (snd (connect (mock_backend (Inr (ok_response None)) (Inr [sample_file]) (Inr ()))
            (Ec2 sample_ec2) (initial_store Map.empty))))
   \<and> connect_answer accepting_full (Ec2 sample_ec2) = Inr (ok_response (Some ''/home/ubuntu''))
   \<and> success (ok_response (Some ''/home/ubuntu''))
   \<and> fst (connect accepting_full (Ec2 sample_ec2) (initial_store Map.empty)) = False
   \<and> isConnected (snd (connect accepting_full (Ec2 sample_ec2) (initial_store Map.empty))) = True
   \<and> rootPath (snd (connect accepting_full (Ec2 sample_ec2) (initial_store Map.empty)))
       = ''/home/ubuntu''
   \<and> currentPath (snd (connect accepting_full (Ec2 sample_ec2) (initial_store Map.empty))) = ''/''
   \<and> files (snd (connect accepting_full (Ec2 sample_ec2) (initial_store Map.empty))) = []"
  by (simp add: accepting_full_def accepting_def mock_backend_def ok_response_def connectEc2_def
        connected_def connected_or_caught_def loadFiles_def opt_or_def str_or_def num_or_def
        sample_ec2_def initial_store_def)

text \<open>
  Claim C3, amended. When the backend reports success and \<^verbatim>\<open>localStorage.setItem\<close> stores
  the config, the call returns true and leaves \<open>isConnected\<close> true, \<open>storageType\<close> the
  requested backend kind and \<open>savedConfig\<close> the supplied config; \<open>rootPath\<close> is the root
  path of the response when the response has a non-empty one, and \<open>/\<close> otherwise.
  Browsing begins there: \<open>currentPath\<close> is \<open>rootPath\<close>, and the first listing is the
  backend's listing of \<open>rootPath\<close> (when that listing fails the file list keeps its
  entries).
\<close>

theorem connect_success_state:
  assumes "connect_answer b config = Inr response" and "success response"
    and "setItem_error b ''image-connection'' (JSON_stringify config) = None"
  shows "fst (connect b config s) = True
       \<and> isConnected (snd (connect b config s)) = True
       \<and> storageType (snd (connect b config s)) = Some (kind config)
       \<and> savedConfig (snd (connect b config s)) = Some config
       \<and> rootPath (snd (connect b config s))
           = (case root_path response of
                None \<Rightarrow> ''/''
              | Some r \<Rightarrow> if r = [] then ''/'' else r)
       \<and> currentPath (snd (connect b config s)) = rootPath (snd (connect b config s))
       \<and> files (snd (connect b config s))
           = (case invoke_list_files b (rootPath (snd (connect b config s))) of
                Inr result \<Rightarrow> result
              | Inl e \<Rightarrow> files s)"
  using connect_success [OF assms, of s]
  by (simp add: opt_or_def str_or_def split: option.splits sum.splits)

theorem connect_success_state_witness:
  "connect_answer (mock_backend (Inr (ok_response (Some ''/home/ubuntu''))) (Inr [sample_file]) (Inr ()))
      (Ec2 sample_ec2) = Inr (ok_response (Some ''/home/ubuntu''))
   \<and> success (ok_response (Some ''/home/ubuntu''))
   \<and> setItem_error (mock_backend (Inr (ok_response (Some ''/home/ubuntu''))) (Inr [sample_file]) (Inr ()))
        ''image-connection'' (JSON_stringify (Ec2 sample_ec2)) = None
   \<and> fst (connect (mock_backend (Inr (ok_response (Some ''/home/ubuntu''))) (Inr [sample_file]) (Inr ()))
        (Ec2 sample_ec2) (initial_store Map.empty))
   \<and> storageType (snd (connect (mock_backend (Inr (ok_response (Some ''/home/ubuntu''))) (Inr [sample_file]) (Inr ()))
        (Ec2 sample_ec2) (initial_store Map.empty))) = Some ec2
   \<and> rootPath (snd (connect (mock_backend (Inr (ok_response (Some ''/home/ubuntu''))) (Inr [sample_file]) (Inr ()))
        (Ec2 sample_ec2) (initial_store Map.empty))) = ''/home/ubuntu''
   \<and> currentPath (snd (connect (mock_backend (Inr (ok_response (Some ''/home/ubuntu''))) (Inr [sample_file]) (Inr ()))
        (Ec2 sample_ec2) (initial_store Map.empty))) = ''/home/ubuntu''
   \<and> files (snd (connect (mock_backend (Inr (ok_response (Some ''/home/ubuntu''))) (Inr [sample_file]) (Inr ()))
        (Ec2 sample_ec2) (initial_store Map.empty))) = [sample_file]"
proof -
  have a: "connect_answer (mock_backend (Inr (ok_response (Some ''/home/ubuntu''))) (Inr [sample_file]) (Inr ()))
      (Ec2 sample_ec2) = Inr (ok_response (Some ''/home/ubuntu''))"
    by (simp add: mock_backend_def)
  have s: "success (ok_response (Some ''/home/ubuntu''))"
    and r: "root_path (ok_response (Some ''/home/ubuntu'')) = Some ''/home/ubuntu''"
    by (simp_all add: ok_response_def)
  have e: "setItem_error (mock_backend (Inr (ok_response (Some ''/home/ubuntu''))) (Inr [sample_file]) (Inr ()))
        ''image-connection'' (JSON_stringify (Ec2 sample_ec2)) = None"
    by (simp add: mock_backend_def)
  have l: "invoke_list_files (mock_backend (Inr (ok_response (Some ''/home/ubuntu''))) (Inr [sample_file]) (Inr ())) q
      = Inr [sample_file]" for q
    by (simp add: mock_backend_def)
  show ?thesis
    using a s e connect_success_state [OF a s e, of "initial_store Map.empty"]
    by (simp add: r l)
qed

lemma browsing_store_eq:
  \<open>browsing_store =
     \<lparr>isConnected = True, isConnecting = False, error = None,
      savedConfig = Some (Ec2 sample_ec2), currentPath = ''/home/ubuntu'', files = [sample_file],
      isLoadingFiles = False, storageType = Some ec2, rootPath = ''/home/ubuntu'',
      isMediaOnly = False,
      localStorage = [''image-connection'' \<mapsto>
        ''{"type":"ec2","host":"192.168.1.1","username":"ubuntu","pemContent":"dGVzdA==","port":22}'']\<rparr>\<close>
  by (simp add: browsing_store_def accepting_def mock_backend_def ok_response_def connectEc2_def
        connected_def connected_or_caught_def loadFiles_def opt_or_def str_or_def num_or_def
        initial_store_def sample_ec2_def json_string_def json_escape_def)

text \<open>
  Claim C4, amended. \<open>disconnect\<close> never throws: it returns a state whatever the backend
  answers. When the backend's disconnect command succeeds, \<open>isConnected\<close> is false, the
  file list is empty, \<open>currentPath\<close> is \<open>/\<close>, \<open>storageType\<close> is cleared and the persisted
  config is removed afterwards, and a further \<open>disconnect\<close> whose command succeeds leaves
  that same state. When the command is rejected, \<open>disconnect\<close> changes nothing.
\<close>

theorem disconnect_outcome:
  "(invoke_disconnect b = Inr () \<longrightarrow>
      disconnect b s =
        s\<lparr>isConnected := False, files := [], currentPath := ''/'', storageType := None,
          localStorage := (localStorage s)(''image-connection'' := None)\<rparr>
      \<and> isConnected (disconnect b s) = False
      \<and> files (disconnect b s) = []
      \<and> storageType (disconnect b s) = None
      \<and> localStorage (disconnect b s) ''image-connection'' = None
      \<and> (invoke_disconnect b' = Inr () \<longrightarrow> disconnect b' (disconnect b s) = disconnect b s))
   \<and> (\<forall>e. invoke_disconnect b = Inl e \<longrightarrow> disconnect b s = s)"
  by (simp add: disconnect_def)

text \<open>
  Claim C4, as the claim states it, fails when the backend rejects the disconnect
  command: the store stays connected, keeps its files and its storage type, and the
  persisted config stays.
\<close>

theorem disconnect_rejected_counterexample:
  "isConnected (disconnect rejecting browsing_store) = True
   \<and> files (disconnect rejecting browsing_store) = [sample_file]
   \<and> storageType (disconnect rejecting browsing_store) = Some ec2
   \<and> localStorage (disconnect rejecting browsing_store) ''image-connection'' \<noteq> None"
  by (simp add: browsing_store_eq disconnect_def rejecting_def mock_backend_def)

theorem disconnect_outcome_witness:
  "invoke_disconnect accepting = Inr ()
   \<and> isConnected (disconnect accepting browsing_store) = False
   \<and> files (disconnect accepting browsing_store) = []
   \<and> storageType (disconnect accepting browsing_store) = None
   \<and> localStorage (disconnect accepting browsing_store) ''image-connection'' = None
   \<and> disconnect accepting (disconnect accepting browsing_store) = disconnect accepting browsing_store
   \<and> invoke_disconnect rejecting = Inl ''Error: Disconnect failed''
   \<and> disconnect rejecting browsing_store = browsing_store"
proof -
  have a: "invoke_disconnect accepting = Inr ()"
    by (simp add: accepting_def mock_backend_def)
  have r: "invoke_disconnect rejecting = Inl ''Error: Disconnect failed''"
    by (simp add: rejecting_def mock_backend_def)
  show ?thesis
    using a r disconnect_outcome [of accepting browsing_store accepting]
      disconnect_outcome [of rejecting browsing_store accepting]
    by blast
qed

text \<open>
  Claim C9. With the media-only filter on, \<open>filteredFiles\<close> keeps, in their order, exactly
  the directory entries, the files whose mimeType starts with \<open>image/\<close> and the files
  whose mimeType is the bare string \<open>video\<close>; a file with the mimeType \<open>video/mp4\<close> is
  left out, although the card with thumbnails classifies it as a video by its prefix
  \<open>video/\<close>. With the filter off, \<open>filteredFiles\<close> is the file list.
\<close>

theorem filteredFiles_media_only:
  "(isMediaOnly s \<longrightarrow>
      filteredFiles s
        = filter (\<lambda>f. isDir f \<or> isImage f \<or> mimeType f = Some ''video'') (files s)
      \<and> (f \<in> set (filteredFiles s) \<longleftrightarrow>
           f \<in> set (files s) \<and> (isDir f \<or> isImage f \<or> mimeType f = Some ''video''))
      \<and> (\<not> isDir f \<and> mimeType f = Some ''video/mp4'' \<longrightarrow>
           f \<notin> set (filteredFiles s) \<and> isVideo f))
   \<and> (\<not> isMediaOnly s \<longrightarrow> filteredFiles s = files s)"
proof -
  have eq: "filteredFiles s
      = filter (\<lambda>f. isDir f \<or> isImage f \<or> mimeType f = Some ''video'') (files s)"
    if "isMediaOnly s"
    unfolding filteredFiles_def using that
    by (auto simp: opt_or_def str_or_def isImage_def startsWith_def
          split: option.splits intro!: filter_cong)
  have vid: "\<not> isImage f \<and> isVideo f" if "mimeType f = Some ''video/mp4''"
    using that by (simp add: isImage_def isVideo_def startsWith_def)
  show ?thesis
    using eq vid by (auto simp: filteredFiles_def)
qed

theorem filteredFiles_media_only_witness:
  "filteredFiles ((initial_store Map.empty)
      \<lparr>files := [sample_file, video_file, bare_video_file, doc_file, folder_file],
        isMediaOnly := True\<rparr>) = [sample_file, bare_video_file, folder_file]
   \<and> isVideo video_file
   \<and> filteredFiles ((initial_store Map.empty)
      \<lparr>files := [sample_file, video_file, bare_video_file, doc_file, folder_file]\<rparr>)
       = [sample_file, video_file, bare_video_file, doc_file, folder_file]"
  using
    filteredFiles_media_only
      [of "(initial_store Map.empty)
             \<lparr>files := [sample_file, video_file, bare_video_file, doc_file, folder_file],
               isMediaOnly := True\<rparr>" video_file]
    filteredFiles_media_only
      [of "(initial_store Map.empty)
             \<lparr>files := [sample_file, video_file, bare_video_file, doc_file, folder_file]\<rparr>"
          video_file]
  by (simp add: initial_store_def isImage_def startsWith_def sample_file_def video_file_def
        bare_video_file_def doc_file_def folder_file_def)

section \<open>Properties of the media card\<close>

lemma loadThumbnail_non_image: "\<not> isImage file \<Longrightarrow> loadThumbnail t file c = c"
  by (simp add: loadThumbnail_def)

lemma loadThumbnail_loaded: "thumbnailLoaded c \<Longrightarrow> loadThumbnail t file c = c"
  by (simp add: loadThumbnail_def)

lemma forEach_entry_requested_non_image:
  "\<not> isImage file \<Longrightarrow> requested (forEach_entry t file entries c) = requested c"
  by (induction entries arbitrary: c) (simp_all add: loadThumbnail_non_image)

lemma card_step_requested_non_image:
  "\<not> isImage file \<Longrightarrow> requested (card_step file c ev) = requested c"
  by (cases ev)
     (simp_all add: onMounted_def observerCallback_def onThumbnailError_def onUnmounted_def
        forEach_entry_requested_non_image loadThumbnail_non_image)

lemma card_run_requested_non_image:
  "\<not> isImage file \<Longrightarrow> requested (card_run file evs c) = requested c"
  unfolding card_run_def
  by (induction evs arbitrary: c) (simp_all add: card_step_requested_non_image)

text \<open>
  Claim C8. For a file whose mimeType does not start with \<open>image/\<close> (or that has none),
  \<open>loadThumbnail\<close> returns without a request, and in every state the card reaches,
  by whatever events, no thumbnail request has been issued.
\<close>

theorem no_thumbnail_request_for_non_image:
  assumes "\<forall>m. mimeType file = Some m \<longrightarrow> \<not> startsWith m ''image/''"
  shows "loadThumbnail t file c = c
       \<and> requested (card_run file evs c) = requested c
       \<and> requested (card_run file evs initial_card) = []"
proof -
  have "\<not> isImage file"
    using assms by (simp add: isImage_def split: option.splits)
  then show ?thesis
    by (simp add: loadThumbnail_non_image card_run_requested_non_image initial_card_def)
qed

theorem no_thumbnail_request_for_non_image_witness:
  "mimeType video_file = Some ''video/mp4'' \<and> \<not> startsWith ''video/mp4'' ''image/''
   \<and> loadThumbnail (\<lambda>p n. Inr ''data:image/png;base64,AAAA'') video_file initial_card = initial_card
   \<and> requested (card_run video_file
        [Mount, Observe (\<lambda>p n. Inr ''data:image/png;base64,AAAA'') [True],
         Load (\<lambda>p n. Inr ''data:image/png;base64,AAAA''), ImgError, Unmount] initial_card) = []"
proof -
  have h: "\<forall>m. mimeType video_file = Some m \<longrightarrow> \<not> startsWith m ''image/''"
    by (simp add: video_file_def startsWith_def)
  have m: "mimeType video_file = Some ''video/mp4''" and n: "\<not> startsWith ''video/mp4'' ''image/''"
    by (simp_all add: video_file_def startsWith_def)
  show ?thesis
    using m n no_thumbnail_request_for_non_image [OF h, of "\<lambda>p n. Inr ''data:image/png;base64,AAAA''" initial_card
      "[Mount, Observe (\<lambda>p n. Inr ''data:image/png;base64,AAAA'') [True],
         Load (\<lambda>p n. Inr ''data:image/png;base64,AAAA''), ImgError, Unmount]"]
    by blast
qed

lemma card_run_loads_loaded:
  "thumbnailLoaded c \<Longrightarrow> card_run file (map Load ts) c = c"
  unfolding card_run_def
  by (induction ts) (simp_all add: loadThumbnail_loaded)

lemma forEach_entry_loaded:
  "thumbnailLoaded c \<Longrightarrow>
   thumbnailLoaded (forEach_entry t file entries c)
   \<and> thumbnailUrl (forEach_entry t file entries c) = thumbnailUrl c
   \<and> requested (forEach_entry t file entries c) = requested c"
  by (induction entries arbitrary: c) (simp_all add: loadThumbnail_loaded)

lemma card_step_loaded:
  assumes "\<not> is_img_error ev" and "thumbnailLoaded c"
  shows "thumbnailLoaded (card_step file c ev)
       \<and> thumbnailUrl (card_step file c ev) = thumbnailUrl c
       \<and> requested (card_step file c ev) = requested c"
proof (cases ev)
  case (Observe t entries)
  then show ?thesis
    using assms(2) by (simp add: observerCallback_def forEach_entry_loaded)
next
  case ImgError
  then show ?thesis
    using assms(1) by simp
qed (use assms(2) in \<open>simp_all add: onMounted_def onUnmounted_def loadThumbnail_loaded\<close>)

lemma card_run_loaded:
  "\<not> list_ex is_img_error evs \<Longrightarrow> thumbnailLoaded c \<Longrightarrow>
   thumbnailLoaded (card_run file evs c)
   \<and> thumbnailUrl (card_run file evs c) = thumbnailUrl c
   \<and> requested (card_run file evs c) = requested c"
  unfolding card_run_def
proof (induction evs arbitrary: c)
  case Nil
  then show ?case by simp
next
  case (Cons ev evs)
  then have "\<not> is_img_error ev" and "\<not> list_ex is_img_error evs"
    by simp_all
  with Cons.IH [of "card_step file c ev"] card_step_loaded [of ev c "file"] Cons.prems(2)
  show ?case by simp
qed

text \<open>
  Claim C7, as the claim states it, fails on the card of the tests' image. After a
  successful load, an image error followed by a load call issues a second request for
  the same path and replaces the stored thumbnail; and a new card for the same path
  starts without a thumbnail and requests it again.
\<close>

theorem thumbnail_requested_again_counterexample:
  "isImage sample_file
   \<and> thumbnailLoaded
        (loadThumbnail (\<lambda>p n. Inr ''data:image/png;base64,AAAA'') sample_file initial_card)
   \<and> thumbnailUrl
        (loadThumbnail (\<lambda>p n. Inr ''data:image/png;base64,AAAA'') sample_file initial_card)
       = ''data:image/png;base64,AAAA''
   \<and> thumbnailUrl
        (card_run sample_file [ImgError, Load (\<lambda>p n. Inr ''data:image/png;base64,BBBB'')]
           (loadThumbnail (\<lambda>p n. Inr ''data:image/png;base64,AAAA'') sample_file initial_card))
       = ''data:image/png;base64,BBBB''
   \<and> requested
        (card_run sample_file [ImgError, Load (\<lambda>p n. Inr ''data:image/png;base64,BBBB'')]
           (loadThumbnail (\<lambda>p n. Inr ''data:image/png;base64,AAAA'') sample_file initial_card))
       = [(''/test.jpg'', 200), (''/test.jpg'', 200)]
   \<and> requested
        (card_run sample_file [Mount, Observe (\<lambda>p n. Inr ''data:image/png;base64,BBBB'') [True]]
           initial_card)
       = [(''/test.jpg'', 200)]"
  by (simp add: card_run_def loadThumbnail_def onThumbnailError_def onMounted_def
        observerCallback_def isImage_def startsWith_def sample_file_def initial_card_def)

text \<open>
  Claim C7, amended. Thumbnail retrieval is idempotent per card, not per path within a
  session. Once a thumbnail load of a card has succeeded, every subsequent load call of
  that card, whatever the backend would answer, returns at once, and so does every
  sequence of events of that card without an image error: the stored thumbnail stays
  the data URL of the first load and no further request is issued. After an image
  error, which clears the flag, a load call requests the path again, and a new card
  for the same path requests it again.
\<close>

theorem loadThumbnail_idempotent:
  assumes "isImage file" and "\<not> thumbnailLoaded c" and "t (path file) 200 = Inr dataUrl"
  shows "thumbnailLoaded (loadThumbnail t file c)
       \<and> thumbnailUrl (loadThumbnail t file c) = dataUrl
       \<and> requested (loadThumbnail t file c) = requested c @ [(path file, 200)]
       \<and> loadThumbnail t' file (loadThumbnail t file c) = loadThumbnail t file c
       \<and> card_run file (map Load ts) (loadThumbnail t file c) = loadThumbnail t file c
       \<and> (\<not> list_ex is_img_error evs \<longrightarrow>
            thumbnailLoaded (card_run file evs (loadThumbnail t file c))
            \<and> thumbnailUrl (card_run file evs (loadThumbnail t file c)) = dataUrl
            \<and> requested (card_run file evs (loadThumbnail t file c))
                = requested c @ [(path file, 200)])
       \<and> requested (loadThumbnail t' file (onThumbnailError (loadThumbnail t file c)))
           = requested c @ [(path file, 200), (path file, 200)]
       \<and> requested (loadThumbnail t' file initial_card) = [(path file, 200)]"
proof -
  have l: "thumbnailLoaded (loadThumbnail t file c)"
    and u: "thumbnailUrl (loadThumbnail t file c) = dataUrl"
    and r: "requested (loadThumbnail t file c) = requested c @ [(path file, 200)]"
    using assms by (simp_all add: loadThumbnail_def)
  have e: "requested (loadThumbnail t' file (onThumbnailError (loadThumbnail t file c)))
      = requested c @ [(path file, 200), (path file, 200)]"
    using assms(1) r
    by (simp add: loadThumbnail_def [of t'] onThumbnailError_def Let_def split: sum.split)
  have n: "requested (loadThumbnail t' file initial_card) = [(path file, 200)]"
    using assms(1) by (simp add: loadThumbnail_def initial_card_def Let_def split: sum.split)
  show ?thesis
    using l u r e n card_run_loaded [of evs "loadThumbnail t file c" "file"]
    by (simp add: loadThumbnail_loaded card_run_loads_loaded)
qed

theorem loadThumbnail_idempotent_witness:
  "isImage sample_file \<and> \<not> thumbnailLoaded initial_card
   \<and> thumbnailUrl (loadThumbnail (\<lambda>p n. Inr ''data:image/png;base64,AAAA'') sample_file initial_card)
        = ''data:image/png;base64,AAAA''
   \<and> card_run sample_file
        [Load (\<lambda>p n. Inr ''data:image/png;base64,BBBB''), Load (\<lambda>p n. Inl ''Error: gone'')]
        (loadThumbnail (\<lambda>p n. Inr ''data:image/png;base64,AAAA'') sample_file initial_card)
       = \<lparr>thumbnailLoaded = True, thumbnailUrl = ''data:image/png;base64,AAAA'',
          hasBeenVisible = False, observing = False, requested = [(''/test.jpg'', 200)]\<rparr>
   \<and> thumbnailUrl (card_run sample_file
        [Mount, Observe (\<lambda>p n. Inr ''data:image/png;base64,BBBB'') [True], Unmount]
        (loadThumbnail (\<lambda>p n. Inr ''data:image/png;base64,AAAA'') sample_file initial_card))
       = ''data:image/png;base64,AAAA''
   \<and> requested (card_run sample_file
        [Mount, Observe (\<lambda>p n. Inr ''data:image/png;base64,BBBB'') [True], Unmount]
        (loadThumbnail (\<lambda>p n. Inr ''data:image/png;base64,AAAA'') sample_file initial_card))
       = [(''/test.jpg'', 200)]"
proof -
  have i: "isImage sample_file"
    by (simp add: isImage_def sample_file_def startsWith_def)
  have n: "\<not> thumbnailLoaded initial_card"
    by (simp add: initial_card_def)
  have e: "loadThumbnail (\<lambda>p n. Inr ''data:image/png;base64,AAAA'') sample_file initial_card
       = \<lparr>thumbnailLoaded = True, thumbnailUrl = ''data:image/png;base64,AAAA'',
          hasBeenVisible = False, observing = False, requested = [(''/test.jpg'', 200)]\<rparr>"
    using i by (simp add: loadThumbnail_def initial_card_def sample_file_def)
  have p: "path sample_file = ''/test.jpg''" and q: "requested initial_card = []"
    by (simp_all add: sample_file_def initial_card_def)
  have x: "\<not> list_ex is_img_error
      [Mount, Observe (\<lambda>p n. Inr ''data:image/png;base64,BBBB'') [True], Unmount]"
    by simp
  have "card_run sample_file
        (map Load [\<lambda>p n. Inr ''data:image/png;base64,BBBB'', \<lambda>p n. Inl ''Error: gone''])
        (loadThumbnail (\<lambda>p n. Inr ''data:image/png;base64,AAAA'') sample_file initial_card)
      = loadThumbnail (\<lambda>p n. Inr ''data:image/png;base64,AAAA'') sample_file initial_card"
    and "thumbnailUrl (card_run sample_file
        [Mount, Observe (\<lambda>p n. Inr ''data:image/png;base64,BBBB'') [True], Unmount]
        (loadThumbnail (\<lambda>p n. Inr ''data:image/png;base64,AAAA'') sample_file initial_card))
       = ''data:image/png;base64,AAAA''"
    and "requested (card_run sample_file
        [Mount, Observe (\<lambda>p n. Inr ''data:image/png;base64,BBBB'') [True], Unmount]
        (loadThumbnail (\<lambda>p n. Inr ''data:image/png;base64,AAAA'') sample_file initial_card))
       = [] @ [(''/test.jpg'', 200)]"
    using x loadThumbnail_idempotent [OF i n, of "\<lambda>p n. Inr ''data:image/png;base64,AAAA''"
        "''data:image/png;base64,AAAA''" "\<lambda>p n. Inl ''Error: gone''"
        "[\<lambda>p n. Inr ''data:image/png;base64,BBBB'', \<lambda>p n. Inl ''Error: gone'']"
        "[Mount, Observe (\<lambda>p n. Inr ''data:image/png;base64,BBBB'') [True], Unmount]"]
    unfolding p q by simp_all
  then show ?thesis
    using i n e by simp
qed

text \<open>
  The component calls \<open>loadThumbnail\<close> from the observer's callback only, and at most once:
  under its own events a card issues at most one request, an image error in between
  included.
\<close>

lemma forEach_entry_once:
  "requested_once c \<Longrightarrow> requested_once (forEach_entry t file entries c)"
  by (induction entries arbitrary: c)
     (auto simp: requested_once_def loadThumbnail_def Let_def split: sum.splits)

lemma card_step_once:
  assumes "\<not> is_direct_load ev" and "requested_once c"
  shows "requested_once (card_step file c ev)"
proof (cases ev)
  case (Observe t entries)
  then show ?thesis
    using assms(2) by (simp add: observerCallback_def forEach_entry_once)
next
  case (Load t)
  then show ?thesis
    using assms(1) by simp
qed (use assms(2) in \<open>simp_all add: requested_once_def onMounted_def onThumbnailError_def
       onUnmounted_def\<close>)

lemma card_run_once:
  "\<not> list_ex is_direct_load evs \<Longrightarrow> requested_once c \<Longrightarrow>
   requested_once (card_run file evs c)"
  unfolding card_run_def
  by (induction evs arbitrary: c) (simp_all add: card_step_once)

lemma component_requests_at_most_once:
  "\<not> list_ex is_direct_load evs \<Longrightarrow> length (requested (card_run file evs initial_card)) \<le> 1"
  using card_run_once [where c = initial_card]
  by (simp add: requested_once_def initial_card_def)

section \<open>Properties of persistence and of sessions\<close>

lemma includes_str_prefix: "includes_str (p @ post) p"
proof (cases "p @ post")
  case Nil
  then show ?thesis by simp
next
  case (Cons a list)
  have "startsWith (p @ post) p"
    by (simp add: startsWith_def)
  then show ?thesis
    by (simp add: Cons)
qed

lemma includes_str_append: "includes_str (pre @ p @ post) p"
proof (induction pre)
  case Nil
  show ?case using includes_str_prefix by simp
next
  case (Cons a pre)
  then show ?case by simp
qed

lemma json_string_plain:
  "\<forall>c \<in> set s. json_escape c = [c] \<Longrightarrow> concat (map json_escape s) = s"
  by (induction s) simp_all

lemma stringify_holds_key_property:
  "includes_str (JSON_stringify config)
     (json_string (key_property config) @ '':'' @ json_string (key_material config))"
proof (cases config)
  case (Ec2 c)
  show ?thesis
    using includes_str_append
      [of \<open>''{"type":"ec2","host":'' @ json_string (host c) @
           '',"username":'' @ json_string (Ec2ConnectionConfig.username c) @ '',''\<close>
          \<open>json_string ''pemContent'' @ '':'' @ json_string (pemContent c)\<close>
          \<open>'',"port":'' @ show_nat (port c) @ ''}''\<close>]
    by (simp add: Ec2 json_string_def json_escape_def del: show_nat.simps)
next
  case (GitHub c)
  show ?thesis
    using includes_str_append
      [of \<open>''{"type":"github","repoUrl":'' @ json_string (repoUrl c) @
           '',"username":'' @ json_string (GitHubConnectionConfig.username c) @ '',''\<close>
          \<open>json_string ''sshKeyContent'' @ '':'' @ json_string (sshKeyContent c)\<close>
          \<open>'',"branch":'' @ json_string (branch c) @
           '',"localPath":'' @ json_string (localPath c) @ ''}''\<close>]
    by (simp add: GitHub json_string_def json_escape_def)
qed

lemma stringify_holds_plain_key:
  assumes "\<forall>c \<in> set (key_material config). json_escape c = [c]"
  shows "includes_str (JSON_stringify config) (key_material config)"
proof (cases config)
  case (Ec2 c)
  show ?thesis
    using assms includes_str_append
      [of \<open>''{"type":"ec2","host":'' @ json_string (host c) @
           '',"username":'' @ json_string (Ec2ConnectionConfig.username c) @ '',"pemContent":"''\<close>
          \<open>pemContent c\<close>
          \<open>''","port":'' @ show_nat (port c) @ ''}''\<close>]
    by (simp add: Ec2 json_string_def json_string_plain del: show_nat.simps)
next
  case (GitHub c)
  show ?thesis
    using assms includes_str_append
      [of \<open>''{"type":"github","repoUrl":'' @ json_string (repoUrl c) @
           '',"username":'' @ json_string (GitHubConnectionConfig.username c) @
           '',"sshKeyContent":"''\<close>
          \<open>sshKeyContent c\<close>
          \<open>''","branch":'' @ json_string (branch c) @
           '',"localPath":'' @ json_string (localPath c) @ ''}''\<close>]
    by (simp add: GitHub json_string_def json_string_plain)
qed

text \<open>
  Claim C1, as the claim states it, fails at the successful connect of the tests: the
  value saved under \<open>image-connection\<close> is the serialized config, and the key material
  \<open>dGVzdA==\<close> of the request occurs in it.
\<close>

theorem key_material_persisted_counterexample:
  \<open>fst (connect accepting (Ec2 sample_ec2) (initial_store Map.empty))
   \<and> key_material (Ec2 sample_ec2) = ''dGVzdA==''
   \<and> localStorage (snd (connect accepting (Ec2 sample_ec2) (initial_store Map.empty)))
        ''image-connection''
       = Some ''{"type":"ec2","host":"192.168.1.1","username":"ubuntu","pemContent":"dGVzdA==","port":22}''
   \<and> includes_str
        ''{"type":"ec2","host":"192.168.1.1","username":"ubuntu","pemContent":"dGVzdA==","port":22}''
        ''dGVzdA==''\<close>
  using browsing_store_eq
  by (simp add: browsing_store_def accepting_def mock_backend_def ok_response_def connectEc2_def
        connected_def connected_or_caught_def sample_ec2_def startsWith_def)

text \<open>
  Claim C1, amended. After every connect call that succeeds (it returns true), the
  value saved under the \<open>localStorage\<close> key \<open>image-connection\<close> is the JSON
  serialization of the whole supplied config. It holds the property \<open>pemContent\<close> (or
  \<open>sshKeyContent\<close>) with the key material as a JSON string, which is the key material
  itself when no character of it needs an escape, as in the base64 text the login view
  supplies. No other key of \<open>localStorage\<close> is written. A \<open>disconnect\<close> whose backend
  command succeeds removes the entry; \<open>savedConfig\<close>, in process memory, keeps the
  config.
\<close>

theorem connect_persists_config:
  assumes "fst (connect b config s)"
  shows "localStorage (snd (connect b config s)) ''image-connection'' = Some (JSON_stringify config)
       \<and> includes_str (JSON_stringify config)
           (json_string (key_property config) @ '':'' @ json_string (key_material config))
       \<and> ((\<forall>c \<in> set (key_material config). json_escape c = [c]) \<longrightarrow>
            includes_str (JSON_stringify config) (key_material config))
       \<and> (\<forall>k. k \<noteq> ''image-connection'' \<longrightarrow>
            localStorage (snd (connect b config s)) k = localStorage s k)
       \<and> savedConfig (snd (connect b config s)) = Some config
       \<and> (invoke_disconnect b' = Inr () \<longrightarrow>
            localStorage (disconnect b' (snd (connect b config s))) ''image-connection'' = None
            \<and> savedConfig (disconnect b' (snd (connect b config s))) = Some config)"
proof -
  from assms obtain response where "connect_answer b config = Inr response"
    and "success response"
    and "setItem_error b ''image-connection'' (JSON_stringify config) = None"
    by (rule connect_trueD)
  from connect_success [OF this, of s] show ?thesis
    using stringify_holds_key_property [of config] stringify_holds_plain_key [of config]
    by (simp add: disconnect_def split: sum.splits)
qed

theorem connect_persists_config_witness:
  "fst (connect accepting (GitHub sample_github) (initial_store Map.empty))
   \<and> localStorage (snd (connect accepting (GitHub sample_github) (initial_store Map.empty)))
        ''image-connection'' = Some (JSON_stringify (GitHub sample_github))
   \<and> includes_str (JSON_stringify (GitHub sample_github)) ''dGVzdCBrZXk=''
   \<and> invoke_disconnect accepting = Inr ()
   \<and> localStorage
        (disconnect accepting (snd (connect accepting (GitHub sample_github) (initial_store Map.empty))))
        ''image-connection'' = None"
proof -
  have a: "fst (connect accepting (GitHub sample_github) (initial_store Map.empty))"
    by (simp add: accepting_def mock_backend_def ok_response_def connectGithub_def connected_def
          connected_or_caught_def)
  have d: "invoke_disconnect accepting = Inr ()"
    by (simp add: accepting_def mock_backend_def)
  have k: "key_material (GitHub sample_github) = ''dGVzdCBrZXk=''"
    by (simp add: sample_github_def)
  have p: "\<forall>c \<in> set ''dGVzdCBrZXk=''. json_escape c = [c]"
    by (simp add: json_escape_def)
  show ?thesis
    using a d p connect_persists_config [OF a, of accepting]
    unfolding k by blast
qed

subsection \<open>Root resolution\<close>

lemma legacy_connect_success:
  assumes "invoke_connect_ec2 b (host config) (Ec2ConnectionConfig.username config)
             (pemContent config) (num_or (port config) 22) = Inr response"
    and "success response"
    and "setItem_error b ''ec2-connection'' (legacy_stringify config) = None"
  shows "legacy_connect b config s =
     (True,
      (legacy_loadFiles b
         (if Ec2ConnectionConfig.username config = ''root'' then ''/root''
          else ''/home/'' @ Ec2ConnectionConfig.username config)
         (s\<lparr>legacy_store.isConnecting := True, legacy_store.error := None,
            legacy_store.isConnected := True, legacy_store.savedConfig := Some config,
            legacy_store.localStorage :=
              (legacy_store.localStorage s)(''ec2-connection'' \<mapsto> legacy_stringify config)\<rparr>))
      \<lparr>legacy_store.isConnecting := False\<rparr>)"
  using assms by (simp add: legacy_connect_def)

lemma legacy_connect_true_iff:
  assumes "invoke_connect_ec2 b (host config) (Ec2ConnectionConfig.username config)
             (pemContent config) (num_or (port config) 22) = Inr response"
    and "success response"
  shows "fst (legacy_connect b config s)
     \<longleftrightarrow> setItem_error b ''ec2-connection'' (legacy_stringify config) = None"
  using assms
  by (cases "setItem_error b ''ec2-connection'' (legacy_stringify config)")
     (simp_all add: legacy_connect_def)

lemma connectEc2_true_iff:
  assumes "invoke_connect_ec2 b (host config) (Ec2ConnectionConfig.username config)
             (pemContent config) (num_or (port config) 22) = Inr response"
    and "success response"
  shows "fst (connectEc2 b config s)
     \<longleftrightarrow> setItem_error b ''image-connection'' (JSON_stringify (Ec2 config)) = None"
  using assms
  by (cases "setItem_error b ''image-connection'' (JSON_stringify (Ec2 config))")
     (simp_all add: connectEc2_def connected_def connected_or_caught_def del: JSON_stringify.simps)

lemma legacy_loadFiles_fields:
  "legacy_store.currentPath (legacy_loadFiles b p s) = p"
  "legacy_store.files (legacy_loadFiles b p s)
     = (case invoke_list_files b p of Inr result \<Rightarrow> result | Inl e \<Rightarrow> legacy_store.files s)"
  by (simp_all add: legacy_loadFiles_def Let_def split: sum.split)

text \<open>
  Claim C5, as the claim states it, fails in the current store: a successful
  remote-filesystem connect as user \<open>ubuntu\<close> whose response has no root path begins
  browsing at \<open>/\<close>, not at \<open>/home/ubuntu\<close>.
\<close>

theorem root_falls_back_to_slash_counterexample:
  "Ec2ConnectionConfig.username sample_ec2 = ''ubuntu''
   \<and> root_path (ok_response None) = None
   \<and> fst (connectEc2 (mock_backend (Inr (ok_response None)) (Inr [sample_file]) (Inr ()))
        sample_ec2 (initial_store Map.empty))
   \<and> rootPath (snd (connectEc2 (mock_backend (Inr (ok_response None)) (Inr [sample_file]) (Inr ()))
        sample_ec2 (initial_store Map.empty))) = ''/''
   \<and> currentPath (snd (connectEc2 (mock_backend (Inr (ok_response None)) (Inr [sample_file]) (Inr ()))
        sample_ec2 (initial_store Map.empty))) = ''/''
   \<and> rootPath (snd (connectEc2 (mock_backend (Inr (ok_response None)) (Inr [sample_file]) (Inr ()))
        sample_ec2 (initial_store Map.empty))) \<noteq> ''/home/ubuntu''"
  by (simp add: mock_backend_def ok_response_def connectEc2_def connected_def
        connected_or_caught_def loadFiles_def opt_or_def num_or_def sample_ec2_def
        initial_store_def)

text \<open>
  Claim C5, amended. In the current store, a successful remote-filesystem connect whose
  response includes no root path uses \<open>/\<close> as the root path and begins browsing there,
  whatever the username. In the legacy store, whose response has no root path, a
  successful connect begins browsing (and lists) at \<open>/root\<close> when the username is
  \<open>root\<close> and at \<open>/home/<username>\<close> otherwise; as user \<open>ubuntu\<close> that is
  \<open>/home/ubuntu\<close>. In both stores a connect that the backend accepts is successful
  (returns true) exactly when \<^verbatim>\<open>localStorage.setItem\<close> stores the config.
\<close>

theorem root_resolution:
  assumes "invoke_connect_ec2 b (host config) (Ec2ConnectionConfig.username config)
             (pemContent config) (num_or (port config) 22) = Inr response"
    and "success response"
  shows "(fst (connectEc2 b config s) \<and> root_path response = None \<longrightarrow>
            rootPath (snd (connectEc2 b config s)) = ''/''
            \<and> currentPath (snd (connectEc2 b config s)) = ''/'')
       \<and> (fst (legacy_connect b config l) \<longrightarrow>
            legacy_store.currentPath (snd (legacy_connect b config l))
              = (if Ec2ConnectionConfig.username config = ''root'' then ''/root''
                 else ''/home/'' @ Ec2ConnectionConfig.username config)
            \<and> legacy_store.files (snd (legacy_connect b config l))
               = (case invoke_list_files b
                        (if Ec2ConnectionConfig.username config = ''root'' then ''/root''
                         else ''/home/'' @ Ec2ConnectionConfig.username config) of
                    Inr result \<Rightarrow> result
                  | Inl e \<Rightarrow> legacy_store.files l))
       \<and> (fst (connectEc2 b config s)
            \<longleftrightarrow> setItem_error b ''image-connection'' (JSON_stringify (Ec2 config)) = None)
       \<and> (fst (legacy_connect b config l)
            \<longleftrightarrow> setItem_error b ''ec2-connection'' (legacy_stringify config) = None)"
proof -
  have a: "connect_answer b (Ec2 config) = Inr response"
    using assms(1) by simp
  have c: "rootPath (snd (connectEc2 b config s)) = ''/''
      \<and> currentPath (snd (connectEc2 b config s)) = ''/''"
    if "fst (connectEc2 b config s)" and "root_path response = None"
  proof -
    from that(1) have "setItem_error b ''image-connection'' (JSON_stringify (Ec2 config)) = None"
      using connectEc2_true_iff [OF assms, of s] by blast
    from connect_success [OF a assms(2) this, of s] that(2) show ?thesis
      by (simp add: opt_or_def split: sum.splits)
  qed
  have g: "legacy_store.currentPath (snd (legacy_connect b config l))
        = (if Ec2ConnectionConfig.username config = ''root'' then ''/root''
           else ''/home/'' @ Ec2ConnectionConfig.username config)
      \<and> legacy_store.files (snd (legacy_connect b config l))
         = (case invoke_list_files b
                  (if Ec2ConnectionConfig.username config = ''root'' then ''/root''
                   else ''/home/'' @ Ec2ConnectionConfig.username config) of
              Inr result \<Rightarrow> result
            | Inl e \<Rightarrow> legacy_store.files l)"
    if "fst (legacy_connect b config l)"
  proof -
    from that have "setItem_error b ''ec2-connection'' (legacy_stringify config) = None"
      using legacy_connect_true_iff [OF assms, of l] by blast
    then show ?thesis
      by (simp add: legacy_connect_success [OF assms] legacy_loadFiles_fields cong: sum.case_cong)
  qed
  show ?thesis
    using c g connectEc2_true_iff [OF assms, of s] legacy_connect_true_iff [OF assms, of l]
    by blast
qed

theorem root_resolution_witness:
  "invoke_connect_ec2 (mock_backend (Inr (ok_response None)) (Inr [sample_file]) (Inr ()))
      (host sample_ec2) (Ec2ConnectionConfig.username sample_ec2) (pemContent sample_ec2)
      (num_or (port sample_ec2) 22) = Inr (ok_response None)
   \<and> success (ok_response None)
   \<and> fst (connectEc2 (mock_backend (Inr (ok_response None)) (Inr [sample_file]) (Inr ()))
        sample_ec2 (initial_store Map.empty))
   \<and> rootPath (snd (connectEc2 (mock_backend (Inr (ok_response None)) (Inr [sample_file]) (Inr ()))
        sample_ec2 (initial_store Map.empty))) = ''/''
   \<and> fst (legacy_connect (mock_backend (Inr (ok_response None)) (Inr [sample_file]) (Inr ()))
        sample_ec2 (legacy_initial_store Map.empty))
   \<and> legacy_store.currentPath
        (snd (legacy_connect (mock_backend (Inr (ok_response None)) (Inr [sample_file]) (Inr ()))
           sample_ec2 (legacy_initial_store Map.empty))) = ''/home/ubuntu''
   \<and> legacy_store.files
        (snd (legacy_connect (mock_backend (Inr (ok_response None)) (Inr [sample_file]) (Inr ()))
           sample_ec2 (legacy_initial_store Map.empty))) = [sample_file]
   \<and> legacy_store.currentPath
        (snd (legacy_connect (mock_backend (Inr (ok_response None)) (Inr [sample_file]) (Inr ()))
           (sample_ec2\<lparr>Ec2ConnectionConfig.username := ''root''\<rparr>) (legacy_initial_store Map.empty)))
       = ''/root''"
proof -
  have a: "invoke_connect_ec2 (mock_backend (Inr (ok_response None)) (Inr [sample_file]) (Inr ()))
      h u k n = Inr (ok_response None)" for h u k n
    by (simp add: mock_backend_def)
  have s: "success (ok_response None)" and r: "root_path (ok_response None) = None"
    by (simp_all add: ok_response_def)
  have l: "invoke_list_files (mock_backend (Inr (ok_response None)) (Inr [sample_file]) (Inr ())) q
      = Inr [sample_file]" for q
    by (simp add: mock_backend_def)
  have e: "setItem_error (mock_backend (Inr (ok_response None)) (Inr [sample_file]) (Inr ())) k v
      = None" for k v
    by (simp add: mock_backend_def)
  have u: "Ec2ConnectionConfig.username sample_ec2 = ''ubuntu''"
    by (simp add: sample_ec2_def)
  show ?thesis
    using a s r
      root_resolution [OF a s, of sample_ec2 "initial_store Map.empty" "legacy_initial_store Map.empty"]
      root_resolution [OF a s, of "sample_ec2\<lparr>Ec2ConnectionConfig.username := ''root''\<rparr>"
        "initial_store Map.empty" "legacy_initial_store Map.empty"]
    by (simp add: l u e)
qed

subsection \<open>One session\<close>

lemma step_other_keys:
  assumes "k \<noteq> ''image-connection''"
  shows "localStorage (step s a) k = localStorage s k"
proof (cases a)
  case (Connect b config)
  show ?thesis
  proof (cases b config rule: connect_cases)
    case (failed msg)
    then show ?thesis by (simp add: Connect connect_failure)
  next
    case (caught response e)
    then show ?thesis by (simp add: Connect connect_caught)
  next
    case (succeeded response)
    then show ?thesis using assms by (simp add: Connect connect_success split: sum.split)
  qed
next
  case (Disconnect b)
  then show ?thesis using assms by (simp add: disconnect_def split: sum.split)
next
  case (LoadFiles b p)
  then show ?thesis by (simp add: loadFiles_def Let_def split: sum.split)
next
  case ToggleMediaOnly
  then show ?thesis by (simp add: toggleMediaOnly_def)
qed

lemma session_coherent_iff:
  "session_coherent s \<longleftrightarrow>
     (\<forall>k. storageType s = Some k \<longrightarrow>
        isConnected s \<and> (\<exists>c. savedConfig s = Some c \<and> kind c = k))"
  by (auto simp: session_coherent_def split: option.splits)

lemma step_coherent:
  assumes "session_coherent s"
  shows "session_coherent (step s a)"
proof (cases a)
  case (Connect b config)
  show ?thesis
  proof (cases b config rule: connect_cases)
    case (failed msg)
    then show ?thesis using assms
      by (simp add: Connect connect_failure session_coherent_iff)
  next
    case (caught response e)
    then show ?thesis
      by (simp add: Connect connect_caught session_coherent_iff)
  next
    case (succeeded response)
    then show ?thesis
      by (simp add: Connect connect_success session_coherent_iff split: sum.split)
  qed
next
  case (Disconnect b)
  then show ?thesis using assms
    by (simp add: disconnect_def session_coherent_iff split: sum.split)
next
  case (LoadFiles b p)
  then show ?thesis using assms
    by (simp add: loadFiles_def Let_def session_coherent_iff split: sum.split)
next
  case ToggleMediaOnly
  then show ?thesis using assms by (simp add: toggleMediaOnly_def session_coherent_iff)
qed

lemma run_other_keys:
  "k \<noteq> ''image-connection'' \<Longrightarrow> localStorage (run as s) k = localStorage s k"
  unfolding run_def
  by (induction as arbitrary: s) (simp_all add: step_other_keys)

lemma run_coherent: "session_coherent s \<Longrightarrow> session_coherent (run as s)"
  unfolding run_def
  by (induction as arbitrary: s) (simp_all add: step_coherent)

text \<open>
  Claim C6, as the claim states it, fails when the first listing of the new session is
  rejected: the connect succeeds and the store describes the new repository session,
  but the file list still holds the entry of the previous session.
\<close>

theorem old_files_survive_counterexample:
  "isConnected browsing_store \<and> files browsing_store = [sample_file]
   \<and> fst (connect (mock_backend (Inr (ok_response (Some ''/''))) (Inl ''Error: Failed to list'') (Inr ()))
        (GitHub sample_github) browsing_store)
   \<and> storageType (snd (connect (mock_backend (Inr (ok_response (Some ''/''))) (Inl ''Error: Failed to list'') (Inr ()))
        (GitHub sample_github) browsing_store)) = Some github
   \<and> files (snd (connect (mock_backend (Inr (ok_response (Some ''/''))) (Inl ''Error: Failed to list'') (Inr ()))
        (GitHub sample_github) browsing_store)) = [sample_file]"
  by (simp add: browsing_store_eq mock_backend_def ok_response_def connectGithub_def connected_def
        connected_or_caught_def loadFiles_def opt_or_def str_or_def)

text \<open>
  Claim C6, amended. After any sequence of connect, disconnect, loadFiles and toggle
  calls on a fresh store, the store holds at most one connection: it is coherent (a
  set storage type comes with \<open>isConnected\<close> and with a saved config of that kind), and
  \<open>image-connection\<close> is the only key of \<open>localStorage\<close> it has touched. A successful
  connect (one that returns true) in such a state, connected or not, overwrites
  \<open>isConnected\<close>, \<open>savedConfig\<close>, \<open>storageType\<close>, \<open>rootPath\<close>, \<open>currentPath\<close>, \<open>error\<close>
  and the persisted entry with the values of the new session; the file list becomes
  the new listing when the first listing succeeds and keeps the previous entries when
  it is rejected. Only the media filter setting and the other keys of \<open>localStorage\<close>
  are carried over.
\<close>

theorem single_session:
  "session_coherent (run as (initial_store ls))
   \<and> (\<forall>k. k \<noteq> ''image-connection'' \<longrightarrow> localStorage (run as (initial_store ls)) k = ls k)
   \<and> (connect_answer b config = Inr response \<and> fst (connect b config (run as (initial_store ls))) \<longrightarrow>
        snd (connect b config (run as (initial_store ls))) =
          (let prior = run as (initial_store ls); root = opt_or (root_path response) ''/''
           in case invoke_list_files b root of
                Inr result \<Rightarrow>
                  \<lparr>isConnected = True, isConnecting = False, error = None,
                   savedConfig = Some config, currentPath = root, files = result,
                   isLoadingFiles = False, storageType = Some (kind config), rootPath = root,
                   isMediaOnly = isMediaOnly prior,
                   localStorage =
                     (localStorage prior)(''image-connection'' \<mapsto> JSON_stringify config)\<rparr>
              | Inl e \<Rightarrow>
                  \<lparr>isConnected = True, isConnecting = False, error = Some e,
                   savedConfig = Some config, currentPath = root, files = files prior,
                   isLoadingFiles = False, storageType = Some (kind config), rootPath = root,
                   isMediaOnly = isMediaOnly prior,
                   localStorage =
                     (localStorage prior)(''image-connection'' \<mapsto> JSON_stringify config)\<rparr>))"
proof -
  have "session_coherent (initial_store ls)"
    by (simp add: session_coherent_def initial_store_def)
  then have c: "session_coherent (run as (initial_store ls))"
    by (rule run_coherent)
  have k: "\<forall>k. k \<noteq> ''image-connection'' \<longrightarrow> localStorage (run as (initial_store ls)) k = ls k"
    by (simp add: run_other_keys) (simp add: initial_store_def)
  have r: "snd (connect b config s) =
      (let root = opt_or (root_path response) ''/''
       in case invoke_list_files b root of
            Inr result \<Rightarrow>
              \<lparr>isConnected = True, isConnecting = False, error = None,
               savedConfig = Some config, currentPath = root, files = result,
               isLoadingFiles = False, storageType = Some (kind config), rootPath = root,
               isMediaOnly = isMediaOnly s,
               localStorage = (localStorage s)(''image-connection'' \<mapsto> JSON_stringify config)\<rparr>
          | Inl e \<Rightarrow>
              \<lparr>isConnected = True, isConnecting = False, error = Some e,
               savedConfig = Some config, currentPath = root, files = files s,
               isLoadingFiles = False, storageType = Some (kind config), rootPath = root,
               isMediaOnly = isMediaOnly s,
               localStorage = (localStorage s)(''image-connection'' \<mapsto> JSON_stringify config)\<rparr>)"
    if a: "connect_answer b config = Inr response" and t: "fst (connect b config s)" for s
  proof -
    from t obtain response' where "connect_answer b config = Inr response'"
      and "success response'"
      and "setItem_error b ''image-connection'' (JSON_stringify config) = None"
      by (rule connect_trueD)
    with a have "success response"
      and "setItem_error b ''image-connection'' (JSON_stringify config) = None"
      by simp_all
    from connect_success [OF a this, of s] show ?thesis
      by (simp add: Let_def)
  qed
  show ?thesis
    using c k r [of "run as (initial_store ls)"] by (simp add: Let_def)
qed

theorem single_session_witness:
  \<open>run [Connect accepting (Ec2 sample_ec2)] (initial_store Map.empty) = browsing_store
   \<and> session_coherent browsing_store
   \<and> connect_answer (mock_backend (Inr (ok_response (Some ''/''))) (Inr []) (Inr ()))
        (GitHub sample_github) = Inr (ok_response (Some ''/''))
   \<and> fst (connect (mock_backend (Inr (ok_response (Some ''/''))) (Inr []) (Inr ()))
        (GitHub sample_github) browsing_store)
   \<and> snd (connect (mock_backend (Inr (ok_response (Some ''/''))) (Inr []) (Inr ()))
        (GitHub sample_github) browsing_store) =
       \<lparr>isConnected = True, isConnecting = False, error = None,
        savedConfig = Some (GitHub sample_github), currentPath = ''/'', files = [],
        isLoadingFiles = False, storageType = Some github, rootPath = ''/'',
        isMediaOnly = False,
        localStorage = [''image-connection'' \<mapsto> JSON_stringify (GitHub sample_github)]\<rparr>\<close>
proof -
  have r: "run [Connect accepting (Ec2 sample_ec2)] (initial_store Map.empty) = browsing_store"
    by (simp add: run_def browsing_store_def)
  have a: "connect_answer (mock_backend (Inr (ok_response (Some ''/''))) (Inr []) (Inr ()))
        (GitHub sample_github) = Inr (ok_response (Some ''/''))"
    by (simp add: mock_backend_def)
  have t: "fst (connect (mock_backend (Inr (ok_response (Some ''/''))) (Inr []) (Inr ()))
        (GitHub sample_github) browsing_store)"
    by (simp add: mock_backend_def ok_response_def connectGithub_def connected_def
          connected_or_caught_def)
  have p: "root_path (ok_response (Some ''/'')) = Some ''/''"
    by (simp add: ok_response_def)
  have l: "invoke_list_files (mock_backend (Inr (ok_response (Some ''/''))) (Inr []) (Inr ())) q = Inr []"
    for q by (simp add: mock_backend_def)
  have m: "isMediaOnly browsing_store = False"
    and u: "(localStorage browsing_store)(''image-connection'' \<mapsto> v) = [''image-connection'' \<mapsto> v]" for v
    by (simp_all add: browsing_store_eq)
  have "session_coherent browsing_store
      \<and> snd (connect (mock_backend (Inr (ok_response (Some ''/''))) (Inr []) (Inr ()))
           (GitHub sample_github) browsing_store) =
          \<lparr>isConnected = True, isConnecting = False, error = None,
           savedConfig = Some (GitHub sample_github), currentPath = ''/'', files = [],
           isLoadingFiles = False, storageType = Some github, rootPath = ''/'',
           isMediaOnly = False,
           localStorage = [''image-connection'' \<mapsto> JSON_stringify (GitHub sample_github)]\<rparr>"
    using a t
      single_session [of "[Connect accepting (Ec2 sample_ec2)]" Map.empty
        "mock_backend (Inr (ok_response (Some ''/''))) (Inr []) (Inr ())" "GitHub sample_github"
        "ok_response (Some ''/'')"]
    unfolding r
    by (simp add: p l m u opt_or_def str_or_def Let_def del: JSON_stringify.simps)
  then show ?thesis
    using r a t by blast
qed

end
